theory Spec2Isabelle
  imports Complex_Main "HOL-Library.Word" "HOL-Library.Sublist"
begin

section \<open>JavaScript strings\<close>

text \<open>
  A JavaScript string is a sequence of 16-bit code units. Source literals are ASCII
  and are written \<open>js ''...''\<close>.
\<close>

type_synonym jsstring = "16 word list"

definition js :: "string \<Rightarrow> jsstring" where
  "js s = map (\<lambda>c. word_of_nat (of_char c)) s"

text \<open>
  \<open>String.prototype.trim\<close> strips, at both ends, the code units of ECMAScript's
  WhiteSpace and LineTerminator productions: TAB, LF, VT, FF, CR, SP, NBSP, the
  Unicode space separators (all in the basic plane), LS, PS and the byte order mark.
\<close>

definition isWhiteSpace :: "16 word \<Rightarrow> bool" where
  "isWhiteSpace c =
     (c = 0x0009 \<or> c = 0x000A \<or> c = 0x000B \<or> c = 0x000C \<or> c = 0x000D \<or>
      c = 0x0020 \<or> c = 0x00A0 \<or> c = 0x1680 \<or> (0x2000 \<le> c \<and> c \<le> 0x200A) \<or>
      c = 0x2028 \<or> c = 0x2029 \<or> c = 0x202F \<or> c = 0x205F \<or> c = 0x3000 \<or>
      c = 0xFEFF)"

definition trim :: "jsstring \<Rightarrow> jsstring" where
  "trim s = rev (dropWhile isWhiteSpace (rev (dropWhile isWhiteSpace s)))"

text \<open>\<open>s.includes(p)\<close>: \<open>p\<close> occurs in \<open>s\<close> as a contiguous run of code units.\<close>

fun includes_str :: "jsstring \<Rightarrow> jsstring \<Rightarrow> bool" where
  "includes_str [] p = (p = [])"
| "includes_str (c # s) p = (prefix p (c # s) \<or> includes_str s p)"

text \<open>
  Truthiness of a value that is a string or \<open>undefined\<close>/\<open>null\<close> (\<open>None\<close>): only
  the empty string and the absent value are falsy.
\<close>

definition truthy_str :: "jsstring option \<Rightarrow> bool" where
  "truthy_str v = (case v of None \<Rightarrow> False | Some s \<Rightarrow> s \<noteq> [])"

section \<open>JavaScript numbers\<close>

text \<open>
  A JavaScript number is an IEEE 754 double: \<open>NaN\<close>, an infinity, or a finite double.
  A finite double is known by the rational it denotes (every finite double denotes one;
  both zeros denote 0 and compare equal). \<open>x >= y\<close> compares the denoted values
  exactly, and is false when an operand is \<open>NaN\<close>.
\<close>

datatype jsnumber = Finite rat | PosInfinity | NegInfinity | NaN

fun js_ge :: "jsnumber \<Rightarrow> jsnumber \<Rightarrow> bool" where
  "js_ge NaN y = False"
| "js_ge x NaN = False"
| "js_ge PosInfinity y = True"
| "js_ge x NegInfinity = True"
| "js_ge NegInfinity y = False"
| "js_ge x PosInfinity = False"
| "js_ge (Finite a) (Finite b) = (a \<ge> b)"

text \<open>
  The doubles from 1/4 up to 1/2 are the rationals \<open>m / 2^54\<close> with
  \<open>2^52 \<le> m \<le> 2^53\<close>, spaced \<open>2^-54\<close> apart. A decimal \<open>q\<close>, in a source literal or in
  a JSON text, denotes the double nearest to it: the one with significand \<open>m\<close> when
  \<open>m / 2^54\<close> lies strictly inside this range and is closer to \<open>q\<close> than half the
  spacing. Here \<open>2^52 = 4503599627370496\<close>, \<open>2^53 = 9007199254740992\<close>,
  \<open>2^54 = 18014398509481984\<close> and \<open>2^55 = 36028797018963968\<close>.
\<close>

definition denotes_double :: "rat \<Rightarrow> int \<Rightarrow> bool" where
  "denotes_double q m =
     (4503599627370496 < m \<and> m < 9007199254740992 \<and>
      \<bar>q - of_int m / 18014398509481984\<bar> < 1 / 36028797018963968)"

text \<open>
  The literal \<open>0.3\<close> of the source, which is also what the JSON text \<open>0.3\<close> parses to,
  and the double that the JSON text \<open>0.2999\<close> parses to.
\<close>

definition number_0_3 :: jsnumber where
  "number_0_3 = Finite (5404319552844595 / 18014398509481984)"

definition number_0_2999 :: jsnumber where
  "number_0_2999 = Finite (5402518112993647 / 18014398509481984)"

section \<open>Effects and the outside world\<close>

text \<open>
  An exception is an \<open>Error\<close> object, known by its message. The functions below
  return their result together with the list of effects they performed, in order.
  A console call is recorded by its first argument. \<open>process.env\<close> is a map from
  variable names, the value of \<open>Date.now()\<close> is the parameter \<open>now\<close> (epoch
  milliseconds, an integer), and \<open>fetch\<close> and \<open>sendEmail\<close> are functions of the
  outside world that say how a call ends.
\<close>

datatype jsexn = JsError (message: jsstring)

record fetch_init =
  fetch_url :: jsstring
  fetch_method :: jsstring
  fetch_content_type :: jsstring
  fetch_body :: jsstring

record mail =
  mail_to :: "jsstring option"
  mail_subject :: "jsstring option"
  mail_htmlMessage :: "jsstring option"

datatype event =
    ConsoleError jsstring
  | ConsoleWarn jsstring
  | ConsoleLog jsstring
  | Fetch fetch_init
  | SendEmail mail

type_synonym process_env = "string \<Rightarrow> jsstring option"

text \<open>
  The object \<open>response.json()\<close> resolves to. The siteverify protocol answers with
  \<open>{success: boolean, score: number, action: string}\<close>, and leaves \<open>score\<close> and
  \<open>action\<close> out when it reports an error, so each property may be absent (it then
  reads as \<open>undefined\<close>). A score is the number that parsing the JSON text produced.
  \<open>JsonNull\<close> is the JSON text \<open>null\<close>, on which a property read throws.
\<close>

record siteverify =
  success :: "bool option"
  score :: "jsnumber option"
  action :: "jsstring option"

datatype jsondata = JsonNull | JsonObject siteverify

text \<open>
  A \<open>Response\<close>: its HTTP status and what \<open>response.json()\<close> does (rejects when
  the body is not JSON, or resolves to the parsed data). \<open>fetch\<close> itself rejects
  on a network failure and resolves for every status.
\<close>

record http_response =
  resp_status :: nat
  resp_json :: "jsexn + jsondata"

datatype fetch_result = Rejected jsexn | Resolved http_response

text \<open>\<open>Response.ok\<close> of the fetch interface: the status is in the range 200 to 299.\<close>

definition resp_ok :: "http_response \<Rightarrow> bool" where
  "resp_ok r = (200 \<le> resp_status r \<and> resp_status r \<le> 299)"

section \<open>The spam validation functions\<close>

subsection \<open>validateRecaptcha\<close>

definition siteverify_init :: "jsstring \<Rightarrow> jsstring \<Rightarrow> fetch_init" where
  "siteverify_init secretKey token =
     \<lparr>fetch_url = js ''https://www.google.com/recaptcha/api/siteverify'',
      fetch_method = js ''POST'',
      fetch_content_type = js ''application/x-www-form-urlencoded'',
      fetch_body = js ''secret='' @ secretKey @ js ''&response='' @ token\<rparr>"

text \<open>
  \<open>data.success === true && data.score >= 0.3 && data.action === expectedAction\<close>.
  An absent \<open>score\<close> is \<open>undefined\<close>, which \<open>>=\<close> converts to \<open>NaN\<close>.
\<close>

definition isValid_data :: "siteverify \<Rightarrow> jsstring \<Rightarrow> bool" where
  "isValid_data d expectedAction =
     (success d = Some True \<and>
      js_ge (case score d of None \<Rightarrow> NaN | Some s \<Rightarrow> s) number_0_3 \<and>
      action d = Some expectedAction)"

text \<open>The body of the \<open>try\<close> block: \<open>Inl\<close> is an exception thrown inside it.\<close>

definition validateRecaptcha_try ::
  "(fetch_init \<Rightarrow> fetch_result) \<Rightarrow> jsstring \<Rightarrow> jsstring \<Rightarrow> jsstring \<Rightarrow>
   (jsexn + bool) \<times> event list" where
  "validateRecaptcha_try fetch secretKey token expectedAction =
     (let init = siteverify_init secretKey token in
      case fetch init of
        Rejected e \<Rightarrow> (Inl e, [Fetch init])
      | Resolved response \<Rightarrow>
          (case resp_json response of
             Inl e \<Rightarrow> (Inl e, [Fetch init])
           | Inr JsonNull \<Rightarrow>
               (Inl (JsError (js ''Cannot read properties of null'')), [Fetch init])
           | Inr (JsonObject d) \<Rightarrow>
               (let isValid = isValid_data d expectedAction in
                if isValid then (Inr isValid, [Fetch init])
                else (Inr isValid,
                      [Fetch init, ConsoleWarn (js ''reCAPTCHA validation failed:'')]))))"

definition validateRecaptcha ::
  "process_env \<Rightarrow> (fetch_init \<Rightarrow> fetch_result) \<Rightarrow> jsstring \<Rightarrow> jsstring \<Rightarrow>
   bool \<times> event list" where
  "validateRecaptcha env fetch token expectedAction =
     (case env ''RECAPTCHA_SECRET_KEY'' of
        None \<Rightarrow> (False, [ConsoleError (js ''RECAPTCHA_SECRET_KEY not configured'')])
      | Some secretKey \<Rightarrow>
          if secretKey = [] then
            (False, [ConsoleError (js ''RECAPTCHA_SECRET_KEY not configured'')])
          else
            (case validateRecaptcha_try fetch secretKey token expectedAction of
               (Inr isValid, evs) \<Rightarrow> (isValid, evs)
             | (Inl error, evs) \<Rightarrow>
                 (False, evs @ [ConsoleError (js ''reCAPTCHA validation error:'')])))"

subsection \<open>validateHoneypot and validateTimestamp\<close>

text \<open>\<open>!honeypotValue || honeypotValue.trim() === ''\<close>\<close>

definition validateHoneypot :: "jsstring option \<Rightarrow> bool" where
  "validateHoneypot honeypotValue =
     (case honeypotValue of None \<Rightarrow> True | Some s \<Rightarrow> s = [] \<or> trim s = [])"

definition validateTimestamp :: "int \<Rightarrow> int \<Rightarrow> bool" where
  "validateTimestamp now timestamp =
     (let elapsed = now - timestamp in elapsed \<ge> 3000 \<and> elapsed \<le> 1800000)"

subsection \<open>validateSpam\<close>

record SpamValidationResult =
  isValid :: bool
  reason :: "jsstring option"

text \<open>The parameter \<open>action\<close> defaults to \<open>'contact_form'\<close> when it is not passed.\<close>

definition validateSpam ::
  "process_env \<Rightarrow> int \<Rightarrow> (fetch_init \<Rightarrow> fetch_result) \<Rightarrow>
   jsstring \<Rightarrow> jsstring option \<Rightarrow> int \<Rightarrow> jsstring option \<Rightarrow>
   SpamValidationResult \<times> event list" where
  "validateSpam env now fetch recaptchaToken honeypot timestamp action_arg =
     (let action = (case action_arg of None \<Rightarrow> js ''contact_form'' | Some a \<Rightarrow> a) in
      if \<not> validateHoneypot honeypot then
        (\<lparr>isValid = False, reason = Some (js ''Honeypot field filled'')\<rparr>, [])
      else if \<not> validateTimestamp now timestamp then
        (\<lparr>isValid = False, reason = Some (js ''Suspicious timing'')\<rparr>, [])
      else
        (case validateRecaptcha env fetch recaptchaToken action of
           (recaptchaValid, evs) \<Rightarrow>
             if \<not> recaptchaValid then
               (\<lparr>isValid = False, reason = Some (js ''reCAPTCHA validation failed'')\<rparr>, evs)
             else (\<lparr>isValid = True, reason = None\<rparr>, evs)))"

section \<open>The email endpoint\<close>

text \<open>
  The request body carries \<open>{to?, subject, htmlMessage, honeypot?, timestamp?}\<close>; the
  handler reads only these five properties. Each is absent (\<open>undefined\<close> or \<open>null\<close>,
  here \<open>None\<close>) or has the type the interface \<open>ISendEmail\<close> declares for it: a string,
  and for \<open>timestamp\<close> a number of epoch milliseconds. The JSON a response carries is
  the list of its properties, in order; the result of \<open>sendEmail\<close> is an opaque
  payload. \<open>sendEmail\<close> either returns such a payload or throws an \<open>Error\<close>.
\<close>

record submission =
  body_to :: "jsstring option"
  body_subject :: "jsstring option"
  body_htmlMessage :: "jsstring option"
  body_honeypot :: "jsstring option"
  body_timestamp :: "int option"

record api_request =
  req_method :: jsstring
  req_body :: submission

datatype 'r json = JNull | JBool bool | JStr jsstring | JPayload 'r

record 'r api_response =
  status :: nat
  json :: "(string \<times> 'r json) list"

datatype 'r send_result = Returned 'r | Threw jsexn

text \<open>\<open>v || d\<close> for an environment variable \<open>v\<close> and a string literal \<open>d\<close>.\<close>

definition or_default :: "jsstring option \<Rightarrow> jsstring \<Rightarrow> jsstring" where
  "or_default v d = (case v of None \<Rightarrow> d | Some s \<Rightarrow> if s = [] then d else s)"

text \<open>
  The routing block of the handler: \<open>let recipientEmail = to\<close>, replaced when \<open>to\<close> is
  falsy by the mailbox for the first of \<open>'Partner'\<close>, \<open>'Financing'\<close> that the subject
  includes, or else by \<open>process.env.RECIPIENT_EMAIL\<close>.
\<close>

definition recipientEmail ::
  "process_env \<Rightarrow> jsstring option \<Rightarrow> jsstring option \<Rightarrow> jsstring option" where
  "recipientEmail env to subject =
     (if truthy_str to then to
      else if (case subject of None \<Rightarrow> False
               | Some s \<Rightarrow> s \<noteq> [] \<and> includes_str s (js ''Partner'')) then
        Some (or_default (env ''PARTNER_EMAIL'') (js ''partners@luminarcapital.com''))
      else if (case subject of None \<Rightarrow> False
               | Some s \<Rightarrow> s \<noteq> [] \<and> includes_str s (js ''Financing'')) then
        Some (or_default (env ''FINANCING_EMAIL'') (js ''clientsuccess@luminarcapital.com''))
      else env ''RECIPIENT_EMAIL'')"

text \<open>The body of the handler's \<open>try\<close> block: \<open>Inl\<close> is an exception thrown inside it.\<close>

definition handler_try ::
  "process_env \<Rightarrow> int \<Rightarrow> (mail \<Rightarrow> 'r send_result) \<Rightarrow> submission \<Rightarrow>
   (jsexn + 'r api_response) \<times> event list" where
  "handler_try env now sendEmail b =
     (let to = body_to b; subject = body_subject b; htmlMessage = body_htmlMessage b;
          honeypot = body_honeypot b; timestamp = body_timestamp b in
      if (case honeypot of None \<Rightarrow> False | Some h \<Rightarrow> h \<noteq> [] \<and> trim h \<noteq> []) then
        (Inr \<lparr>status = 200,
              json = [(''success'', JBool True), (''response'', JNull), (''error'', JNull)]\<rparr>,
         [ConsoleWarn (js ''Spam detected: Honeypot filled'')])
      else if (case timestamp of None \<Rightarrow> False
               | Some t \<Rightarrow> t \<noteq> 0 \<and> (let elapsed = now - t in
                                       elapsed < 3000 \<or> elapsed > 1800000)) then
        (Inr \<lparr>status = 200,
              json = [(''success'', JBool True), (''response'', JNull), (''error'', JNull)]\<rparr>,
         [ConsoleWarn (js ''Spam detected: Suspicious timing'')])
      else
        (let m = \<lparr>mail_to = recipientEmail env to subject, mail_subject = subject,
                  mail_htmlMessage = htmlMessage\<rparr>;
             logs = [ConsoleLog (js ''=== EMAIL DEBUG ===''), ConsoleLog (js ''To:''),
                     ConsoleLog (js ''Subject:''), SendEmail m]
         in case sendEmail m of
              Threw e \<Rightarrow> (Inl e, logs)
            | Returned response \<Rightarrow>
                (Inr \<lparr>status = 200,
                      json = [(''success'', JBool True), (''response'', JPayload response),
                              (''error'', JNull)]\<rparr>,
                 logs @ [ConsoleLog (js ''Email sent successfully!'')])))"

definition handler ::
  "process_env \<Rightarrow> int \<Rightarrow> (mail \<Rightarrow> 'r send_result) \<Rightarrow> api_request \<Rightarrow>
   'r api_response \<times> event list" where
  "handler env now sendEmail req =
     (if req_method req \<noteq> js ''POST'' then
        (\<lparr>status = 405, json = [(''error'', JStr (js ''Method not allowed''))]\<rparr>, [])
      else
        (case handler_try env now sendEmail (req_body req) of
           (Inr res, evs) \<Rightarrow> (res, evs)
         | (Inl error, evs) \<Rightarrow>
             (\<lparr>status = 500,
               json = [(''success'', JBool False), (''response'', JNull),
                       (''error'', JStr (message error))]\<rparr>,
              evs @ [ConsoleError (js ''=== EMAIL ERROR ===''), ConsoleError (js ''Full error:''),
                     ConsoleError (js ''Error message:'')])))"

text \<open>
  The response envelope \<open>{success: bool, response: T|null, error: string|null}\<close>:
  exactly these three properties, each of its type.
\<close>

fun is_envelope :: "(string \<times> 'r json) list \<Rightarrow> bool" where
  "is_envelope [(k1, JBool b), (k2, JNull), (k3, JNull)] =
     (k1 = ''success'' \<and> k2 = ''response'' \<and> k3 = ''error'')"
| "is_envelope [(k1, JBool b), (k2, JNull), (k3, JStr e)] =
     (k1 = ''success'' \<and> k2 = ''response'' \<and> k3 = ''error'')"
| "is_envelope [(k1, JBool b), (k2, JPayload r), (k3, JNull)] =
     (k1 = ''success'' \<and> k2 = ''response'' \<and> k3 = ''error'')"
| "is_envelope [(k1, JBool b), (k2, JPayload r), (k3, JStr e)] =
     (k1 = ''success'' \<and> k2 = ''response'' \<and> k3 = ''error'')"
| "is_envelope _ = False"

text \<open>
  Vocabulary for the properties below: the honeypot of a submission is filled, its
  timestamp is present and outside the window, its subject contains a tag, the mail the
  handler composes for it, and the mail sends among a list of events.
\<close>

definition honeypot_filled :: "submission \<Rightarrow> bool" where
  "honeypot_filled b = (\<not> validateHoneypot (body_honeypot b))"

definition timing_suspicious :: "int \<Rightarrow> submission \<Rightarrow> bool" where
  "timing_suspicious now b =
     (case body_timestamp b of None \<Rightarrow> False
      | Some t \<Rightarrow> t \<noteq> 0 \<and> \<not> validateTimestamp now t)"

definition subject_contains :: "submission \<Rightarrow> jsstring \<Rightarrow> bool" where
  "subject_contains b p =
     (case body_subject b of None \<Rightarrow> False | Some s \<Rightarrow> includes_str s p)"

definition mail_of :: "process_env \<Rightarrow> submission \<Rightarrow> mail" where
  "mail_of env b =
     \<lparr>mail_to = recipientEmail env (body_to b) (body_subject b),
      mail_subject = body_subject b, mail_htmlMessage = body_htmlMessage b\<rparr>"

fun is_SendEmail :: "event \<Rightarrow> bool" where
  "is_SendEmail (SendEmail m) = True"
| "is_SendEmail _ = False"

section \<open>Concrete configurations and submissions\<close>

definition env_demo :: process_env where
  "env_demo = [''RECAPTCHA_SECRET_KEY'' \<mapsto> js ''6Lc-secret'',
               ''RECIPIENT_EMAIL'' \<mapsto> js ''info@luminarcapital.com'']"

definition env_routed :: process_env where
  "env_routed = [''PARTNER_EMAIL'' \<mapsto> js ''partner-desk@luminarcapital.com'',
                 ''FINANCING_EMAIL'' \<mapsto> js ''funding@luminarcapital.com'',
                 ''RECIPIENT_EMAIL'' \<mapsto> js ''info@luminarcapital.com'']"

definition data_scored :: "jsnumber \<Rightarrow> siteverify" where
  "data_scored s =
     \<lparr>success = Some True, score = Some s, action = Some (js ''contact_form'')\<rparr>"

definition resp_scored :: "nat \<Rightarrow> jsnumber \<Rightarrow> http_response" where
  "resp_scored st s = \<lparr>resp_status = st, resp_json = Inr (JsonObject (data_scored s))\<rparr>"

definition fetch_scored :: "nat \<Rightarrow> jsnumber \<Rightarrow> fetch_init \<Rightarrow> fetch_result" where
  "fetch_scored st s init = Resolved (resp_scored st s)"

definition fetch_down :: "fetch_init \<Rightarrow> fetch_result" where
  "fetch_down init = Rejected (JsError (js ''fetch failed''))"

definition send_ok :: "mail \<Rightarrow> jsstring send_result" where
  "send_ok m = Returned (js ''250 OK'')"

definition send_timeout :: "mail \<Rightarrow> jsstring send_result" where
  "send_timeout m = Threw (JsError (js ''SMTP timeout''))"

definition now_demo :: int where
  "now_demo = 1700000000000"

definition sub_partner :: submission where
  "sub_partner =
     \<lparr>body_to = None, body_subject = Some (js ''Partner inquiry''),
      body_htmlMessage = Some (js ''<p>Hello</p>''), body_honeypot = Some [],
      body_timestamp = Some (now_demo - 10000)\<rparr>"

definition sub_spam :: submission where
  "sub_spam = sub_partner\<lparr>body_honeypot := Some (js ''spammerbot'')\<rparr>"

definition sub_fast :: submission where
  "sub_fast = sub_partner\<lparr>body_timestamp := Some (now_demo - 1000)\<rparr>"

definition sub_notime :: submission where
  "sub_notime = sub_partner\<lparr>body_timestamp := Some 0\<rparr>"

definition mail_partner :: mail where
  "mail_partner =
     \<lparr>mail_to = Some (js ''partners@luminarcapital.com''),
      mail_subject = Some (js ''Partner inquiry''),
      mail_htmlMessage = Some (js ''<p>Hello</p>'')\<rparr>"

definition sub_both :: submission where
  "sub_both = sub_partner\<lparr>body_subject := Some (js ''Financing for a Partner'')\<rparr>"

definition sub_financing :: submission where
  "sub_financing = sub_partner\<lparr>body_subject := Some (js ''Apply for Financing'')\<rparr>"

definition sub_other :: submission where
  "sub_other = sub_partner\<lparr>body_subject := Some (js ''General question'')\<rparr>"

definition post :: "submission \<Rightarrow> api_request" where
  "post b = \<lparr>req_method = js ''POST'', req_body = b\<rparr>"

section \<open>Strings\<close>

lemma set_dropWhile_all:
  "(\<forall>x\<in>set (dropWhile P xs). P x) \<longleftrightarrow> (\<forall>x\<in>set xs. P x)"
  by (induction xs) auto

lemma trim_Nil_iff: "trim s = [] \<longleftrightarrow> (\<forall>c\<in>set s. isWhiteSpace c)"
proof -
  have "trim s = [] \<longleftrightarrow> (\<forall>c\<in>set (dropWhile isWhiteSpace s). isWhiteSpace c)"
    by (simp add: trim_def)
  then show ?thesis
    by (simp add: set_dropWhile_all)
qed

lemma includes_str_sublist: "includes_str s p = sublist p s"
  by (induction s) (auto simp: sublist_Cons_right)

lemma includes_str_iff: "includes_str s p \<longleftrightarrow> (\<exists>u v. s = u @ p @ v)"
  by (simp add: includes_str_sublist sublist_def)

section \<open>The honeypot checker\<close>

text \<open>
  C6. \<open>validateHoneypot\<close> returns true exactly when the value is absent or empty after
  trimming, that is, when it is absent or every one of its code units is white space;
  a value with a code unit that is not white space is rejected. The function is a
  total, pure function of its argument.
\<close>

theorem validateHoneypot_clean_iff:
  "(validateHoneypot h \<longleftrightarrow> h = None \<or> (\<exists>s. h = Some s \<and> trim s = [])) \<and>
   (validateHoneypot h \<longleftrightarrow> h = None \<or> (\<exists>s. h = Some s \<and> (\<forall>c\<in>set s. isWhiteSpace c)))"
proof (cases h)
  case None
  then show ?thesis by (simp add: validateHoneypot_def)
next
  case (Some s)
  have "s = [] \<Longrightarrow> trim s = []" by (simp add: trim_def)
  then show ?thesis using Some by (auto simp: validateHoneypot_def trim_Nil_iff)
qed

theorem validateHoneypot_clean_iff_witness:
  "validateHoneypot (Some (js '' '')) \<and> \<not> validateHoneypot (Some (js '' bot ''))"
  using validateHoneypot_clean_iff [of "Some (js '' '')"]
    validateHoneypot_clean_iff [of "Some (js '' bot '')"]
  by (simp add: js_def isWhiteSpace_def trim_def)

section \<open>The timing heuristic\<close>

text \<open>
  C5. With \<open>elapsed = now - timestamp\<close>, \<open>validateTimestamp\<close> returns true exactly when
  \<open>3000 \<le> elapsed \<le> 1800000\<close>. Both bounds are inclusive, 2999 and 1800001 are
  rejected, and a negative elapsed time gives false.
\<close>

theorem validateTimestamp_window:
  "(validateTimestamp now ts \<longleftrightarrow> 3000 \<le> now - ts \<and> now - ts \<le> 1800000) \<and>
   validateTimestamp (ts + 3000) ts \<and> validateTimestamp (ts + 1800000) ts \<and>
   \<not> validateTimestamp (ts + 2999) ts \<and> \<not> validateTimestamp (ts + 1800001) ts \<and>
   (now - ts < 0 \<longrightarrow> \<not> validateTimestamp now ts)"
  by (simp add: validateTimestamp_def Let_def)

theorem validateTimestamp_window_witness:
  "now_demo - (now_demo + 5000) < 0 \<and> \<not> validateTimestamp now_demo (now_demo + 5000)"
  using validateTimestamp_window [of now_demo "now_demo + 5000"]
  by simp

section \<open>The bot-score verifier\<close>

lemma validateRecaptcha_unset:
  assumes "env ''RECAPTCHA_SECRET_KEY'' = None \<or> env ''RECAPTCHA_SECRET_KEY'' = Some []"
  shows "validateRecaptcha env fetch token a =
           (False, [ConsoleError (js ''RECAPTCHA_SECRET_KEY not configured'')])"
  using assms by (auto simp: validateRecaptcha_def)

lemma validateRecaptcha_set:
  assumes "env ''RECAPTCHA_SECRET_KEY'' = Some key" and "key \<noteq> []"
  shows "validateRecaptcha env fetch token a =
           (case validateRecaptcha_try fetch key token a of
              (Inr v, evs) \<Rightarrow> (v, evs)
            | (Inl e, evs) \<Rightarrow>
                (False, evs @ [ConsoleError (js ''reCAPTCHA validation error:'')]))"
  using assms by (simp add: validateRecaptcha_def)

lemma validateRecaptcha_try_Rejected:
  assumes "fetch (siteverify_init key token) = Rejected e"
  shows "validateRecaptcha_try fetch key token a = (Inl e, [Fetch (siteverify_init key token)])"
  using assms by (simp add: validateRecaptcha_try_def)

lemma validateRecaptcha_try_not_json:
  assumes "fetch (siteverify_init key token) = Resolved r" and "resp_json r = Inl e"
  shows "validateRecaptcha_try fetch key token a = (Inl e, [Fetch (siteverify_init key token)])"
  using assms by (simp add: validateRecaptcha_try_def)

lemma validateRecaptcha_try_null:
  assumes "fetch (siteverify_init key token) = Resolved r" and "resp_json r = Inr JsonNull"
  shows "fst (validateRecaptcha_try fetch key token a) =
           Inl (JsError (js ''Cannot read properties of null''))"
  using assms by (simp add: validateRecaptcha_try_def)

lemma validateRecaptcha_try_object:
  assumes "fetch (siteverify_init key token) = Resolved r"
    and "resp_json r = Inr (JsonObject d)"
  shows "fst (validateRecaptcha_try fetch key token a) = Inr (isValid_data d a)"
  using assms by (simp add: validateRecaptcha_try_def Let_def)

lemma validateRecaptcha_caught:
  assumes "env ''RECAPTCHA_SECRET_KEY'' = Some key"
    and "fst (validateRecaptcha_try fetch key token a) = Inl e"
  shows "\<not> fst (validateRecaptcha env fetch token a)"
  using assms
  by (cases "validateRecaptcha_try fetch key token a") (auto simp: validateRecaptcha_def)

lemma validateRecaptcha_returned:
  assumes "env ''RECAPTCHA_SECRET_KEY'' = Some key" and "key \<noteq> []"
    and "fst (validateRecaptcha_try fetch key token a) = Inr v"
  shows "fst (validateRecaptcha env fetch token a) = v"
  using assms
  by (cases "validateRecaptcha_try fetch key token a") (auto simp: validateRecaptcha_def)

lemma validateRecaptcha_try_events:
  "snd (validateRecaptcha_try fetch key token a) \<noteq> []"
  by (auto simp: validateRecaptcha_try_def Let_def split: fetch_result.splits sum.splits jsondata.splits)

lemma validateRecaptcha_events: "snd (validateRecaptcha env fetch token a) \<noteq> []"
proof (cases "env ''RECAPTCHA_SECRET_KEY''")
  case None
  then show ?thesis by (simp add: validateRecaptcha_unset)
next
  case (Some key)
  show ?thesis
  proof (cases "key = []")
    case True
    with Some show ?thesis by (simp add: validateRecaptcha_unset)
  next
    case False
    obtain r evs where t: "validateRecaptcha_try fetch key token a = (r, evs)"
      by (cases "validateRecaptcha_try fetch key token a")
    with validateRecaptcha_try_events [of fetch key token a] have "evs \<noteq> []" by simp
    with Some False t show ?thesis
      by (cases r) (simp_all add: validateRecaptcha_set)
  qed
qed

lemma validateRecaptcha_true_iff:
  assumes "env ''RECAPTCHA_SECRET_KEY'' = Some key" and "key \<noteq> []"
  shows "fst (validateRecaptcha env fetch token a) \<longleftrightarrow>
           (\<exists>r d. fetch (siteverify_init key token) = Resolved r \<and>
                  resp_json r = Inr (JsonObject d) \<and> isValid_data d a)"
proof (cases "fetch (siteverify_init key token)")
  case (Rejected e)
  with assms(1) validateRecaptcha_caught [of env key fetch token a e] show ?thesis
    by (simp add: validateRecaptcha_try_Rejected)
next
  case (Resolved r)
  show ?thesis
  proof (cases "resp_json r")
    case (Inl e)
    with Resolved assms(1) validateRecaptcha_caught [of env key fetch token a e] show ?thesis
      by (simp add: validateRecaptcha_try_not_json)
  next
    case (Inr data)
    show ?thesis
    proof (cases data)
      case JsonNull
      with Resolved Inr assms(1) validateRecaptcha_caught [of env key fetch token a]
      show ?thesis
        by (simp add: validateRecaptcha_try_null)
    next
      case (JsonObject d)
      with Resolved Inr assms show ?thesis
        by (simp add: validateRecaptcha_returned validateRecaptcha_try_object)
    qed
  qed
qed

lemma js_ge_number_0_3_Finite:
  "js_ge (Finite q) number_0_3 \<longleftrightarrow> q \<ge> 5404319552844595 / 18014398509481984"
  by (simp add: number_0_3_def)

lemma literal_0_3_denotes: "denotes_double (3 / 10) 5404319552844595"
  by (simp add: denotes_double_def)

lemma json_0_2999_denotes: "denotes_double (2999 / 10000) 5402518112993647"
  by (simp add: denotes_double_def)

text \<open>
  A JSON text slightly below 0.3 can parse to the same double as \<open>0.3\<close>; the response
  then carries a score that is exactly the number \<open>0.3\<close>.
\<close>

lemma json_just_below_0_3_denotes:
  "denotes_double (29999999999999999 / 100000000000000000) 5404319552844595"
  by (simp add: denotes_double_def)

text \<open>
  Every double from 1/4 on is a multiple of \<open>2^-54\<close>. Among these, the ones that are
  \<open>>= 0.3\<close> are those at least 3/10 as rationals, and the number \<open>0.3\<close> itself.
\<close>

lemma double_ge_0_3_iff:
  "js_ge (Finite (of_int m / 18014398509481984)) number_0_3 \<longleftrightarrow>
     (3 / 10 :: rat) \<le> of_int m / 18014398509481984 \<or> m = 5404319552844595"
proof -
  have "(3 / 10 :: rat) \<le> of_int m / 18014398509481984 \<longleftrightarrow>
          (54043195528445952 :: rat) \<le> of_int (10 * m)"
    by (simp add: field_simps)
  also have "\<dots> \<longleftrightarrow> 54043195528445952 \<le> 10 * m"
    by (metis of_int_le_iff of_int_numeral)
  finally have a: "(3 / 10 :: rat) \<le> of_int m / 18014398509481984 \<longleftrightarrow> 5404319552844596 \<le> m"
    by presburger
  have "js_ge (Finite (of_int m / 18014398509481984)) number_0_3 \<longleftrightarrow>
          (5404319552844595 :: rat) \<le> of_int m"
    by (simp add: number_0_3_def field_simps)
  also have "\<dots> \<longleftrightarrow> 5404319552844595 \<le> m"
    by (metis of_int_le_iff of_int_numeral)
  finally show ?thesis
    using a by presburger
qed

text \<open>
  C3. With the secret configured, \<open>validateRecaptcha\<close> judges the token valid if and
  only if the verification service answers with a JSON object whose \<open>success\<close> is
  \<open>true\<close>, whose \<open>score\<close> is \<open>>= 0.3\<close>, and whose \<open>action\<close> is the expected action.
  Score and threshold are doubles and are compared exactly: a finite score passes when
  its value is at least that of the number \<open>0.3\<close>, the double nearest to 3/10. The
  threshold is inclusive: the score \<open>0.3\<close> passes, and the score \<open>0.2999\<close> fails. An
  absent score, \<open>NaN\<close> and negative infinity fail.
\<close>

theorem validateRecaptcha_decision_rule:
  assumes "env ''RECAPTCHA_SECRET_KEY'' = Some key" and "key \<noteq> []"
  shows "(fst (validateRecaptcha env fetch token expectedAction) \<longleftrightarrow>
            (\<exists>r d. fetch (siteverify_init key token) = Resolved r \<and>
                   resp_json r = Inr (JsonObject d) \<and>
                   success d = Some True \<and>
                   js_ge (case score d of None \<Rightarrow> NaN | Some s \<Rightarrow> s) number_0_3 \<and>
                   action d = Some expectedAction)) \<and>
         (fetch (siteverify_init key token) = Resolved r \<and> resp_json r = Inr (JsonObject d) \<longrightarrow>
            (fst (validateRecaptcha env fetch token expectedAction) \<longleftrightarrow>
               success d = Some True \<and>
               js_ge (case score d of None \<Rightarrow> NaN | Some s \<Rightarrow> s) number_0_3 \<and>
               action d = Some expectedAction)) \<and>
         (js_ge (Finite q) number_0_3 \<longleftrightarrow> q \<ge> 5404319552844595 / 18014398509481984) \<and>
         (js_ge (Finite (of_int m / 18014398509481984)) number_0_3 \<longleftrightarrow>
            (3 / 10 :: rat) \<le> of_int m / 18014398509481984 \<or> m = 5404319552844595) \<and>
         denotes_double (3 / 10) 5404319552844595 \<and>
         js_ge number_0_3 number_0_3 \<and>
         denotes_double (2999 / 10000) 5402518112993647 \<and>
         \<not> js_ge number_0_2999 number_0_3 \<and>
         \<not> js_ge NaN number_0_3 \<and> \<not> js_ge NegInfinity number_0_3 \<and>
         js_ge PosInfinity number_0_3"
proof -
  have rule: "fst (validateRecaptcha env fetch token expectedAction) \<longleftrightarrow>
      (\<exists>r d. fetch (siteverify_init key token) = Resolved r \<and>
             resp_json r = Inr (JsonObject d) \<and>
             success d = Some True \<and>
             js_ge (case score d of None \<Rightarrow> NaN | Some s \<Rightarrow> s) number_0_3 \<and>
             action d = Some expectedAction)"
    using assms validateRecaptcha_true_iff [of env key fetch token expectedAction]
    by (simp add: isValid_data_def)
  then have given: "fetch (siteverify_init key token) = Resolved r \<and>
      resp_json r = Inr (JsonObject d) \<longrightarrow>
        (fst (validateRecaptcha env fetch token expectedAction) \<longleftrightarrow>
           success d = Some True \<and>
           js_ge (case score d of None \<Rightarrow> NaN | Some s \<Rightarrow> s) number_0_3 \<and>
           action d = Some expectedAction)"
    by auto
  have numbers: "js_ge number_0_3 number_0_3" "\<not> js_ge number_0_2999 number_0_3"
    "\<not> js_ge NaN number_0_3" "\<not> js_ge NegInfinity number_0_3" "js_ge PosInfinity number_0_3"
    by (simp_all add: number_0_3_def number_0_2999_def)
  from rule given js_ge_number_0_3_Finite [of q] double_ge_0_3_iff [of m]
    literal_0_3_denotes json_0_2999_denotes numbers
  show ?thesis
    by (intro conjI)
qed

theorem validateRecaptcha_decision_rule_witness:
  "env_demo ''RECAPTCHA_SECRET_KEY'' = Some (js ''6Lc-secret'') \<and> js ''6Lc-secret'' \<noteq> [] \<and>
   fetch_scored 200 number_0_3 (siteverify_init (js ''6Lc-secret'') (js ''tok'')) =
     Resolved (resp_scored 200 number_0_3) \<and>
   resp_json (resp_scored 200 number_0_3) = Inr (JsonObject (data_scored number_0_3)) \<and>
   fst (validateRecaptcha env_demo (fetch_scored 200 number_0_3) (js ''tok'')
         (js ''contact_form'')) \<and>
   \<not> fst (validateRecaptcha env_demo (fetch_scored 200 number_0_2999) (js ''tok'')
            (js ''contact_form'')) \<and>
   \<not> fst (validateRecaptcha env_demo (fetch_scored 200 (Finite (7 / 8))) (js ''tok'')
            (js ''login''))"
proof -
  have k: "env_demo ''RECAPTCHA_SECRET_KEY'' = Some (js ''6Lc-secret'')"
    by (simp add: env_demo_def)
  have n: "js ''6Lc-secret'' \<noteq> []"
    by (simp add: js_def)
  have c: "js ''contact_form'' \<noteq> js ''login''"
    by (simp add: js_def)
  have g: "js_ge number_0_3 number_0_3" "\<not> js_ge number_0_2999 number_0_3"
    by (simp_all add: number_0_3_def number_0_2999_def)
  show ?thesis
    using k n c g
      validateRecaptcha_decision_rule [of env_demo "js ''6Lc-secret''"
        "fetch_scored 200 number_0_3" "js ''tok''" "js ''contact_form''"
        "resp_scored 200 number_0_3" "data_scored number_0_3"]
      validateRecaptcha_decision_rule [of env_demo "js ''6Lc-secret''"
        "fetch_scored 200 number_0_2999" "js ''tok''" "js ''contact_form''"
        "resp_scored 200 number_0_2999" "data_scored number_0_2999"]
      validateRecaptcha_decision_rule [of env_demo "js ''6Lc-secret''"
        "fetch_scored 200 (Finite (7 / 8))" "js ''tok''" "js ''login''"
        "resp_scored 200 (Finite (7 / 8))" "data_scored (Finite (7 / 8))"]
    by (simp add: fetch_scored_def resp_scored_def data_scored_def)
qed

text \<open>
  C4, as amended. With the secret unset or empty, \<open>validateRecaptcha\<close> returns false
  after a single console error and no outbound call. With the secret set, every
  exception thrown inside the \<open>try\<close> block is caught and gives false: a rejected
  \<open>fetch\<close>, a body that is not JSON, and the JSON value \<open>null\<close>; an object lacking
  \<open>success\<close>, \<open>score\<close> or \<open>action\<close> gives false as well. The HTTP status of the
  response is never read: a resolved response is judged by its parsed body alone,
  whatever its status. The function returns a boolean on every path.
\<close>

theorem validateRecaptcha_fails_closed:
  "(env ''RECAPTCHA_SECRET_KEY'' = None \<or> env ''RECAPTCHA_SECRET_KEY'' = Some [] \<longrightarrow>
      validateRecaptcha env fetch token a =
        (False, [ConsoleError (js ''RECAPTCHA_SECRET_KEY not configured'')])) \<and>
   (env ''RECAPTCHA_SECRET_KEY'' = Some key \<and>
    fst (validateRecaptcha_try fetch key token a) = Inl e \<longrightarrow>
      \<not> fst (validateRecaptcha env fetch token a)) \<and>
   (env ''RECAPTCHA_SECRET_KEY'' = Some key \<and>
    fetch (siteverify_init key token) = Rejected e \<longrightarrow>
      \<not> fst (validateRecaptcha env fetch token a)) \<and>
   (env ''RECAPTCHA_SECRET_KEY'' = Some key \<and>
    fetch (siteverify_init key token) = Resolved r \<and> resp_json r = Inl e \<longrightarrow>
      \<not> fst (validateRecaptcha env fetch token a)) \<and>
   (env ''RECAPTCHA_SECRET_KEY'' = Some key \<and>
    fetch (siteverify_init key token) = Resolved r \<and> resp_json r = Inr JsonNull \<longrightarrow>
      \<not> fst (validateRecaptcha env fetch token a)) \<and>
   (env ''RECAPTCHA_SECRET_KEY'' = Some key \<and>
    fetch (siteverify_init key token) = Resolved r \<and> resp_json r = Inr (JsonObject d) \<and>
    (success d = None \<or> score d = None \<or> action d = None) \<longrightarrow>
      \<not> fst (validateRecaptcha env fetch token a)) \<and>
   (env ''RECAPTCHA_SECRET_KEY'' = Some key \<and> key \<noteq> [] \<and>
    fetch (siteverify_init key token) = Resolved r \<and> resp_json r = Inr (JsonObject d) \<longrightarrow>
      fst (validateRecaptcha env fetch token a) = isValid_data d a)"
proof -
  have unset: "env ''RECAPTCHA_SECRET_KEY'' = None \<or> env ''RECAPTCHA_SECRET_KEY'' = Some [] \<longrightarrow>
      validateRecaptcha env fetch token a =
        (False, [ConsoleError (js ''RECAPTCHA_SECRET_KEY not configured'')])"
    using validateRecaptcha_unset by blast
  have caught: "env ''RECAPTCHA_SECRET_KEY'' = Some key \<and>
      fst (validateRecaptcha_try fetch key token a) = Inl e \<longrightarrow>
      \<not> fst (validateRecaptcha env fetch token a)"
    using validateRecaptcha_caught by blast
  have rejected: "env ''RECAPTCHA_SECRET_KEY'' = Some key \<and>
      fetch (siteverify_init key token) = Rejected e \<longrightarrow>
      \<not> fst (validateRecaptcha env fetch token a)"
    using validateRecaptcha_caught [of env key fetch token a e]
    by (simp add: validateRecaptcha_try_Rejected)
  have not_json: "env ''RECAPTCHA_SECRET_KEY'' = Some key \<and>
      fetch (siteverify_init key token) = Resolved r \<and> resp_json r = Inl e \<longrightarrow>
      \<not> fst (validateRecaptcha env fetch token a)"
    using validateRecaptcha_caught [of env key fetch token a e]
    by (simp add: validateRecaptcha_try_not_json)
  have null: "env ''RECAPTCHA_SECRET_KEY'' = Some key \<and>
      fetch (siteverify_init key token) = Resolved r \<and> resp_json r = Inr JsonNull \<longrightarrow>
      \<not> fst (validateRecaptcha env fetch token a)"
    using validateRecaptcha_caught [of env key fetch token a]
    by (simp add: validateRecaptcha_try_null)
  have object: "env ''RECAPTCHA_SECRET_KEY'' = Some key \<and> key \<noteq> [] \<and>
      fetch (siteverify_init key token) = Resolved r \<and> resp_json r = Inr (JsonObject d) \<longrightarrow>
      fst (validateRecaptcha env fetch token a) = isValid_data d a"
    by (simp add: validateRecaptcha_returned validateRecaptcha_try_object)
  have missing: "env ''RECAPTCHA_SECRET_KEY'' = Some key \<and>
      fetch (siteverify_init key token) = Resolved r \<and> resp_json r = Inr (JsonObject d) \<and>
      (success d = None \<or> score d = None \<or> action d = None) \<longrightarrow>
      \<not> fst (validateRecaptcha env fetch token a)"
  proof (cases "key = []")
    case True
    then show ?thesis using unset by auto
  next
    case False
    then show ?thesis using object by (auto simp: isValid_data_def)
  qed
  from unset caught rejected not_json null missing object show ?thesis
    by (intro conjI)
qed

theorem validateRecaptcha_fails_closed_witness:
  "Map.empty ''RECAPTCHA_SECRET_KEY'' = (None :: jsstring option) \<and>
   validateRecaptcha Map.empty (fetch_scored 200 (Finite (7 / 8))) (js ''tok'') (js ''contact_form'') =
     (False, [ConsoleError (js ''RECAPTCHA_SECRET_KEY not configured'')]) \<and>
   env_demo ''RECAPTCHA_SECRET_KEY'' = Some (js ''6Lc-secret'') \<and>
   fetch_down (siteverify_init (js ''6Lc-secret'') (js ''tok'')) =
     Rejected (JsError (js ''fetch failed'')) \<and>
   \<not> fst (validateRecaptcha env_demo fetch_down (js ''tok'') (js ''contact_form''))"
  using
    validateRecaptcha_fails_closed [of Map.empty "fetch_scored 200 (Finite (7 / 8))" "js ''tok''"
      "js ''contact_form''"]
    validateRecaptcha_fails_closed [of env_demo fetch_down "js ''tok''" "js ''contact_form''"
      "js ''6Lc-secret''" "JsError (js ''fetch failed'')"]
  by (simp add: env_demo_def fetch_down_def)

text \<open>
  C4 as stated fails: a response with status 500 whose body passes the decision rule is
  judged valid.
\<close>

theorem validateRecaptcha_non2xx_counterexample:
  "\<not> resp_ok (resp_scored 500 (Finite (7 / 8))) \<and>
   fetch_scored 500 (Finite (7 / 8)) (siteverify_init (js ''6Lc-secret'') (js ''tok'')) =
     Resolved (resp_scored 500 (Finite (7 / 8))) \<and>
   validateRecaptcha env_demo (fetch_scored 500 (Finite (7 / 8))) (js ''tok'') (js ''contact_form'') =
     (True, [Fetch (siteverify_init (js ''6Lc-secret'') (js ''tok''))])"
  by (simp add: resp_ok_def resp_scored_def fetch_scored_def data_scored_def env_demo_def
      validateRecaptcha_def validateRecaptcha_try_def isValid_data_def number_0_3_def
        js_def)

section \<open>The spam gate\<close>

text \<open>
  C1. \<open>validateSpam\<close> checks honeypot, timing and bot score in this order and stops at
  the first failure, with the reasons \<open>Honeypot field filled\<close>, \<open>Suspicious timing\<close> and
  \<open>reCAPTCHA validation failed\<close>; otherwise the result is valid. A call of
  \<open>validateRecaptcha\<close> always leaves an event (a console error or the fetch), and
  \<open>validateSpam\<close> performs no event at all unless honeypot and timing both pass: the
  verifier is not invoked when one of them fails.
\<close>

theorem validateSpam_ordered_short_circuit:
  "(\<not> validateHoneypot honeypot \<longrightarrow>
      validateSpam env now fetch token honeypot ts act =
        (\<lparr>isValid = False, reason = Some (js ''Honeypot field filled'')\<rparr>, [])) \<and>
   (validateHoneypot honeypot \<and> \<not> validateTimestamp now ts \<longrightarrow>
      validateSpam env now fetch token honeypot ts act =
        (\<lparr>isValid = False, reason = Some (js ''Suspicious timing'')\<rparr>, [])) \<and>
   (validateHoneypot honeypot \<and> validateTimestamp now ts \<and>
    \<not> fst (validateRecaptcha env fetch token
             (case act of None \<Rightarrow> js ''contact_form'' | Some a \<Rightarrow> a)) \<longrightarrow>
      validateSpam env now fetch token honeypot ts act =
        (\<lparr>isValid = False, reason = Some (js ''reCAPTCHA validation failed'')\<rparr>,
         snd (validateRecaptcha env fetch token
               (case act of None \<Rightarrow> js ''contact_form'' | Some a \<Rightarrow> a)))) \<and>
   (validateHoneypot honeypot \<and> validateTimestamp now ts \<and>
    fst (validateRecaptcha env fetch token
           (case act of None \<Rightarrow> js ''contact_form'' | Some a \<Rightarrow> a)) \<longrightarrow>
      validateSpam env now fetch token honeypot ts act =
        (\<lparr>isValid = True, reason = None\<rparr>,
         snd (validateRecaptcha env fetch token
               (case act of None \<Rightarrow> js ''contact_form'' | Some a \<Rightarrow> a)))) \<and>
   snd (validateRecaptcha env fetch token a') \<noteq> [] \<and>
   (validateHoneypot honeypot \<and> validateTimestamp now ts \<longleftrightarrow>
      snd (validateSpam env now fetch token honeypot ts act) \<noteq> [])"
proof -
  let ?a = "case act of None \<Rightarrow> js ''contact_form'' | Some a \<Rightarrow> a"
  obtain v evs where r: "validateRecaptcha env fetch token ?a = (v, evs)"
    by (cases "validateRecaptcha env fetch token ?a")
  with validateRecaptcha_events [of env fetch token ?a] have ne: "evs \<noteq> []"
    by simp
  show ?thesis
    using r ne validateRecaptcha_events [of env fetch token a']
    by (simp add: validateSpam_def Let_def)
qed

theorem validateSpam_ordered_short_circuit_witness:
  "\<not> validateHoneypot (Some (js ''spammerbot'')) \<and>
   validateSpam env_demo now_demo (fetch_scored 200 (Finite (7 / 8))) (js ''tok'')
       (Some (js ''spammerbot'')) (now_demo - 10000) None =
     (\<lparr>isValid = False, reason = Some (js ''Honeypot field filled'')\<rparr>, []) \<and>
   validateHoneypot None \<and> \<not> validateTimestamp now_demo (now_demo - 1000) \<and>
   validateSpam env_demo now_demo (fetch_scored 200 (Finite (7 / 8))) (js ''tok'') None
       (now_demo - 1000) None =
     (\<lparr>isValid = False, reason = Some (js ''Suspicious timing'')\<rparr>, []) \<and>
   validateTimestamp now_demo (now_demo - 10000) \<and>
   \<not> fst (validateRecaptcha env_demo (fetch_scored 200 (Finite (1 / 8))) (js ''tok'')
            (js ''contact_form'')) \<and>
   fst (validateSpam env_demo now_demo (fetch_scored 200 (Finite (1 / 8))) (js ''tok'') None
       (now_demo - 10000) None) =
     \<lparr>isValid = False, reason = Some (js ''reCAPTCHA validation failed'')\<rparr> \<and>
   fst (validateRecaptcha env_demo (fetch_scored 200 (Finite (7 / 8))) (js ''tok'')
         (js ''contact_form'')) \<and>
   fst (validateSpam env_demo now_demo (fetch_scored 200 (Finite (7 / 8))) (js ''tok'') None
       (now_demo - 10000) None) = \<lparr>isValid = True, reason = None\<rparr>"
proof -
  have low: "\<not> fst (validateRecaptcha env_demo (fetch_scored 200 (Finite (1 / 8))) (js ''tok'')
                      (js ''contact_form''))"
    by (simp add: resp_scored_def fetch_scored_def data_scored_def env_demo_def
        validateRecaptcha_def validateRecaptcha_try_def isValid_data_def number_0_3_def
        js_def)
  have high: "fst (validateRecaptcha env_demo (fetch_scored 200 (Finite (7 / 8))) (js ''tok'')
                    (js ''contact_form''))"
    by (simp add: resp_scored_def fetch_scored_def data_scored_def env_demo_def
        validateRecaptcha_def validateRecaptcha_try_def isValid_data_def number_0_3_def
        js_def)
  have h: "\<not> validateHoneypot (Some (js ''spammerbot''))" "validateHoneypot None"
    by (simp_all add: validateHoneypot_def trim_def isWhiteSpace_def js_def)
  have t: "\<not> validateTimestamp now_demo (now_demo - 1000)"
    "validateTimestamp now_demo (now_demo - 10000)"
    by (simp_all add: validateTimestamp_def)
  show ?thesis
    using low high h t
      validateSpam_ordered_short_circuit [of "Some (js ''spammerbot'')" env_demo now_demo
        "fetch_scored 200 (Finite (7 / 8))" "js ''tok''" "now_demo - 10000" None]
      validateSpam_ordered_short_circuit [of None env_demo now_demo
        "fetch_scored 200 (Finite (7 / 8))" "js ''tok''" "now_demo - 1000" None]
      validateSpam_ordered_short_circuit [of None env_demo now_demo
        "fetch_scored 200 (Finite (1 / 8))" "js ''tok''" "now_demo - 10000" None]
      validateSpam_ordered_short_circuit [of None env_demo now_demo
        "fetch_scored 200 (Finite (7 / 8))" "js ''tok''" "now_demo - 10000" None]
    by simp
qed

section \<open>The submission dispatcher\<close>

lemma honeypot_check_iff:
  "(case body_honeypot b of None \<Rightarrow> False | Some h \<Rightarrow> h \<noteq> [] \<and> trim h \<noteq> []) =
     honeypot_filled b"
proof -
  have "trim [] = []" by (simp add: trim_def)
  then show ?thesis
    by (auto simp: honeypot_filled_def validateHoneypot_def split: option.splits)
qed

lemma timing_check_iff:
  "(case body_timestamp b of None \<Rightarrow> False
    | Some t \<Rightarrow> t \<noteq> 0 \<and> (now - t < 3000 \<or> now - t > 1800000)) =
     timing_suspicious now b"
  by (auto simp: timing_suspicious_def validateTimestamp_def Let_def split: option.splits)

lemma handler_try_honeypot:
  assumes "honeypot_filled b"
  shows "handler_try env now sendEmail b =
           (Inr \<lparr>status = 200,
                 json = [(''success'', JBool True), (''response'', JNull), (''error'', JNull)]\<rparr>,
            [ConsoleWarn (js ''Spam detected: Honeypot filled'')])"
  using assms unfolding handler_try_def Let_def honeypot_check_iff by simp

lemma handler_try_timing:
  assumes "\<not> honeypot_filled b" and "timing_suspicious now b"
  shows "handler_try env now sendEmail b =
           (Inr \<lparr>status = 200,
                 json = [(''success'', JBool True), (''response'', JNull), (''error'', JNull)]\<rparr>,
            [ConsoleWarn (js ''Spam detected: Suspicious timing'')])"
  using assms unfolding handler_try_def Let_def honeypot_check_iff timing_check_iff by simp

lemma handler_try_pass:
  assumes "\<not> honeypot_filled b" and "\<not> timing_suspicious now b"
  shows "handler_try env now sendEmail b =
           (case sendEmail (mail_of env b) of
              Threw e \<Rightarrow>
                (Inl e, [ConsoleLog (js ''=== EMAIL DEBUG ===''), ConsoleLog (js ''To:''),
                         ConsoleLog (js ''Subject:''), SendEmail (mail_of env b)])
            | Returned response \<Rightarrow>
                (Inr \<lparr>status = 200,
                      json = [(''success'', JBool True), (''response'', JPayload response),
                              (''error'', JNull)]\<rparr>,
                 [ConsoleLog (js ''=== EMAIL DEBUG ===''), ConsoleLog (js ''To:''),
                  ConsoleLog (js ''Subject:''), SendEmail (mail_of env b),
                  ConsoleLog (js ''Email sent successfully!'')]))"
  using assms
  unfolding mail_of_def handler_try_def Let_def honeypot_check_iff timing_check_iff
  by (simp split: send_result.splits)

lemma handler_post:
  assumes "req_method req = js ''POST''"
  shows "handler env now sendEmail req =
           (case handler_try env now sendEmail (req_body req) of
              (Inr res, evs) \<Rightarrow> (res, evs)
            | (Inl error, evs) \<Rightarrow>
                (\<lparr>status = 500,
                  json = [(''success'', JBool False), (''response'', JNull),
                          (''error'', JStr (message error))]\<rparr>,
                 evs @ [ConsoleError (js ''=== EMAIL ERROR ===''),
                        ConsoleError (js ''Full error:''),
                        ConsoleError (js ''Error message:'')]))"
  using assms by (simp add: handler_def)

lemma handler_drop:
  assumes "req_method req = js ''POST''"
    and "honeypot_filled (req_body req) \<or> timing_suspicious now (req_body req)"
  shows "fst (handler env now sendEmail req) =
           \<lparr>status = 200,
            json = [(''success'', JBool True), (''response'', JNull), (''error'', JNull)]\<rparr> \<and>
         filter is_SendEmail (snd (handler env now sendEmail req)) = []"
proof (cases "honeypot_filled (req_body req)")
  case True
  then show ?thesis using assms(1) by (simp add: handler_post handler_try_honeypot)
next
  case False
  with assms(2) have "timing_suspicious now (req_body req)" by simp
  with False show ?thesis using assms(1) by (simp add: handler_post handler_try_timing)
qed

lemma handler_pass_returned:
  assumes "req_method req = js ''POST''"
    and "\<not> honeypot_filled (req_body req)" and "\<not> timing_suspicious now (req_body req)"
    and "sendEmail (mail_of env (req_body req)) = Returned r"
  shows "handler env now sendEmail req =
           (\<lparr>status = 200,
             json = [(''success'', JBool True), (''response'', JPayload r), (''error'', JNull)]\<rparr>,
            [ConsoleLog (js ''=== EMAIL DEBUG ===''), ConsoleLog (js ''To:''),
             ConsoleLog (js ''Subject:''), SendEmail (mail_of env (req_body req)),
             ConsoleLog (js ''Email sent successfully!'')])"
  using assms by (simp add: handler_post handler_try_pass)

lemma handler_pass_threw:
  assumes "req_method req = js ''POST''"
    and "\<not> honeypot_filled (req_body req)" and "\<not> timing_suspicious now (req_body req)"
    and "sendEmail (mail_of env (req_body req)) = Threw e"
  shows "handler env now sendEmail req =
           (\<lparr>status = 500,
             json = [(''success'', JBool False), (''response'', JNull),
                     (''error'', JStr (message e))]\<rparr>,
            [ConsoleLog (js ''=== EMAIL DEBUG ===''), ConsoleLog (js ''To:''),
             ConsoleLog (js ''Subject:''), SendEmail (mail_of env (req_body req)),
             ConsoleError (js ''=== EMAIL ERROR ===''), ConsoleError (js ''Full error:''),
             ConsoleError (js ''Error message:'')])"
  using assms by (simp add: handler_post handler_try_pass)

lemma handler_pass_sends:
  assumes "req_method req = js ''POST''"
    and "\<not> honeypot_filled (req_body req)" and "\<not> timing_suspicious now (req_body req)"
  shows "filter is_SendEmail (snd (handler env now sendEmail req)) =
           [SendEmail (mail_of env (req_body req))]"
proof (cases "sendEmail (mail_of env (req_body req))")
  case (Returned r)
  with assms show ?thesis by (simp add: handler_pass_returned)
next
  case (Threw e)
  with assms show ?thesis by (simp add: handler_pass_threw)
qed

lemma subject_contains_iff:
  "subject_contains b p \<longleftrightarrow> (\<exists>s u v. body_subject b = Some s \<and> s = u @ p @ v)"
  by (cases "body_subject b") (simp_all add: subject_contains_def includes_str_iff)

lemma recipientEmail_routes:
  assumes "\<not> truthy_str to"
  shows "recipientEmail env to (body_subject b) =
           (if subject_contains b (js ''Partner'') then
              Some (or_default (env ''PARTNER_EMAIL'') (js ''partners@luminarcapital.com''))
            else if subject_contains b (js ''Financing'') then
              Some (or_default (env ''FINANCING_EMAIL'')
                      (js ''clientsuccess@luminarcapital.com''))
            else env ''RECIPIENT_EMAIL'')"
proof -
  have "(case body_subject b of None \<Rightarrow> False | Some s \<Rightarrow> s \<noteq> [] \<and> includes_str s (js k)) =
          subject_contains b (js k)" if "k \<noteq> []" for k
    using that by (cases "body_subject b") (auto simp: subject_contains_def js_def)
  then show ?thesis
    using assms by (simp add: recipientEmail_def)
qed

lemma spammerbot_filled:
  assumes "body_honeypot b = Some (js ''spammerbot'')"
  shows "honeypot_filled b"
  using assms
  by (simp add: honeypot_filled_def validateHoneypot_def trim_def isWhiteSpace_def js_def)

text \<open>
  C2. For a POST submission whose honeypot is filled, or whose timestamp is present and
  outside the window, the handler answers with status 200 and the success-shaped
  envelope \<open>{success: true, response: null, error: null}\<close>, and \<open>sendEmail\<close> is not
  called. A submission with the honeypot \<open>spammerbot\<close> gets this answer whatever its
  other fields are.
\<close>

theorem handler_silent_drop:
  assumes "req_method req = js ''POST''"
  shows "(honeypot_filled (req_body req) \<or> timing_suspicious now (req_body req) \<longrightarrow>
            fst (handler env now sendEmail req) =
              \<lparr>status = 200,
               json = [(''success'', JBool True), (''response'', JNull), (''error'', JNull)]\<rparr> \<and>
            filter is_SendEmail (snd (handler env now sendEmail req)) = []) \<and>
         (body_honeypot (req_body req) = Some (js ''spammerbot'') \<longrightarrow>
            fst (handler env now sendEmail req) =
              \<lparr>status = 200,
               json = [(''success'', JBool True), (''response'', JNull), (''error'', JNull)]\<rparr> \<and>
            filter is_SendEmail (snd (handler env now sendEmail req)) = [])"
  using handler_drop [OF assms, of now env sendEmail] spammerbot_filled [of "req_body req"]
  by blast

theorem handler_silent_drop_witness:
  "req_method (post sub_spam) = js ''POST'' \<and>
   body_honeypot (req_body (post sub_spam)) = Some (js ''spammerbot'') \<and>
   fst (handler env_demo now_demo send_ok (post sub_spam)) =
     \<lparr>status = 200,
      json = [(''success'', JBool True), (''response'', JNull), (''error'', JNull)]\<rparr> \<and>
   filter is_SendEmail (snd (handler env_demo now_demo send_ok (post sub_spam))) = [] \<and>
   timing_suspicious now_demo (req_body (post sub_fast)) \<and>
   fst (handler env_demo now_demo send_ok (post sub_fast)) =
     \<lparr>status = 200,
      json = [(''success'', JBool True), (''response'', JNull), (''error'', JNull)]\<rparr> \<and>
   filter is_SendEmail (snd (handler env_demo now_demo send_ok (post sub_fast))) = []"
proof -
  have p: "req_method (post b) = js ''POST''" for b
    by (simp add: post_def)
  have h: "body_honeypot (req_body (post sub_spam)) = Some (js ''spammerbot'')"
    by (simp add: post_def sub_spam_def)
  have t: "timing_suspicious now_demo (req_body (post sub_fast))"
    by (simp add: post_def sub_fast_def sub_partner_def timing_suspicious_def
        validateTimestamp_def now_demo_def)
  show ?thesis
    using p h t handler_silent_drop [OF p, of sub_spam now_demo env_demo send_ok]
      handler_silent_drop [OF p, of sub_fast now_demo env_demo send_ok]
    by simp
qed

text \<open>
  C7. For a POST submission that passes both checks, \<open>sendEmail\<close> is called once; when
  it returns \<open>r\<close> the handler answers with status 200 and
  \<open>{success: true, response: r, error: null}\<close>, and when it throws an error with
  message \<open>m\<close> the handler catches it and answers with status 500 and
  \<open>{success: false, response: null, error: m}\<close>.
\<close>

theorem handler_maps_send_outcome:
  assumes "req_method req = js ''POST''"
    and "\<not> honeypot_filled (req_body req)" and "\<not> timing_suspicious now (req_body req)"
  shows "filter is_SendEmail (snd (handler env now sendEmail req)) =
           [SendEmail (mail_of env (req_body req))] \<and>
         (\<forall>r. sendEmail (mail_of env (req_body req)) = Returned r \<longrightarrow>
            fst (handler env now sendEmail req) =
              \<lparr>status = 200,
               json = [(''success'', JBool True), (''response'', JPayload r),
                       (''error'', JNull)]\<rparr>) \<and>
         (\<forall>m. sendEmail (mail_of env (req_body req)) = Threw (JsError m) \<longrightarrow>
            fst (handler env now sendEmail req) =
              \<lparr>status = 500,
               json = [(''success'', JBool False), (''response'', JNull),
                       (''error'', JStr m)]\<rparr>)"
  using assms
  by (simp add: handler_pass_sends handler_pass_returned handler_pass_threw)

lemma sub_partner_passes:
  "\<not> honeypot_filled (req_body (post sub_partner)) \<and>
   \<not> timing_suspicious now_demo (req_body (post sub_partner))"
  by (simp add: post_def sub_partner_def honeypot_filled_def validateHoneypot_def
      timing_suspicious_def validateTimestamp_def now_demo_def)

theorem handler_maps_send_outcome_witness:
  "req_method (post sub_partner) = js ''POST'' \<and>
   \<not> honeypot_filled (req_body (post sub_partner)) \<and>
   \<not> timing_suspicious now_demo (req_body (post sub_partner)) \<and>
   send_ok (mail_of env_demo (req_body (post sub_partner))) = Returned (js ''250 OK'') \<and>
   fst (handler env_demo now_demo send_ok (post sub_partner)) =
     \<lparr>status = 200,
      json = [(''success'', JBool True), (''response'', JPayload (js ''250 OK'')),
              (''error'', JNull)]\<rparr> \<and>
   send_timeout (mail_of env_demo (req_body (post sub_partner))) =
     Threw (JsError (js ''SMTP timeout'')) \<and>
   fst (handler env_demo now_demo send_timeout (post sub_partner)) =
     \<lparr>status = 500,
      json = [(''success'', JBool False), (''response'', JNull),
              (''error'', JStr (js ''SMTP timeout''))]\<rparr>"
proof -
  have p: "req_method (post sub_partner) = js ''POST''"
    by (simp add: post_def)
  note q = sub_partner_passes [THEN conjunct1] sub_partner_passes [THEN conjunct2]
  show ?thesis
    using p q handler_maps_send_outcome [OF p q, of env_demo send_ok]
      handler_maps_send_outcome [OF p q, of env_demo send_timeout]
    by (simp add: send_ok_def send_timeout_def)
qed

text \<open>
  C8. For a POST submission that passes both checks and has no \<open>to\<close>, \<open>sendEmail\<close> is
  called once, with the subject and the HTML body of the submission and with the
  recipient of the first rule that matches. A subject that contains \<open>Partner\<close> goes to
  the partner mailbox: \<open>process.env.PARTNER_EMAIL\<close> when it is configured, and
  \<open>partners@luminarcapital.com\<close> when it is unset or empty. Otherwise a subject that
  contains \<open>Financing\<close> goes to the financing mailbox: \<open>process.env.FINANCING_EMAIL\<close>
  when it is configured, and \<open>clientsuccess@luminarcapital.com\<close> when it is unset or
  empty. Otherwise the mail goes to \<open>process.env.RECIPIENT_EMAIL\<close>. A subject contains a
  tag when the tag occurs in it as a substring.
\<close>

theorem handler_routes_by_subject:
  assumes "req_method req = js ''POST''"
    and "\<not> honeypot_filled (req_body req)" and "\<not> timing_suspicious now (req_body req)"
    and "body_to (req_body req) = None"
  shows "(subject_contains (req_body req) (js ''Partner'') \<and>
          env ''PARTNER_EMAIL'' = Some e \<and> e \<noteq> [] \<longrightarrow>
            filter is_SendEmail (snd (handler env now sendEmail req)) =
              [SendEmail \<lparr>mail_to = Some e, mail_subject = body_subject (req_body req),
                          mail_htmlMessage = body_htmlMessage (req_body req)\<rparr>]) \<and>
         (subject_contains (req_body req) (js ''Partner'') \<and>
          (env ''PARTNER_EMAIL'' = None \<or> env ''PARTNER_EMAIL'' = Some []) \<longrightarrow>
            filter is_SendEmail (snd (handler env now sendEmail req)) =
              [SendEmail \<lparr>mail_to = Some (js ''partners@luminarcapital.com''),
                          mail_subject = body_subject (req_body req),
                          mail_htmlMessage = body_htmlMessage (req_body req)\<rparr>]) \<and>
         (\<not> subject_contains (req_body req) (js ''Partner'') \<and>
          subject_contains (req_body req) (js ''Financing'') \<and>
          env ''FINANCING_EMAIL'' = Some e \<and> e \<noteq> [] \<longrightarrow>
            filter is_SendEmail (snd (handler env now sendEmail req)) =
              [SendEmail \<lparr>mail_to = Some e, mail_subject = body_subject (req_body req),
                          mail_htmlMessage = body_htmlMessage (req_body req)\<rparr>]) \<and>
         (\<not> subject_contains (req_body req) (js ''Partner'') \<and>
          subject_contains (req_body req) (js ''Financing'') \<and>
          (env ''FINANCING_EMAIL'' = None \<or> env ''FINANCING_EMAIL'' = Some []) \<longrightarrow>
            filter is_SendEmail (snd (handler env now sendEmail req)) =
              [SendEmail \<lparr>mail_to = Some (js ''clientsuccess@luminarcapital.com''),
                          mail_subject = body_subject (req_body req),
                          mail_htmlMessage = body_htmlMessage (req_body req)\<rparr>]) \<and>
         (\<not> subject_contains (req_body req) (js ''Partner'') \<and>
          \<not> subject_contains (req_body req) (js ''Financing'') \<longrightarrow>
            filter is_SendEmail (snd (handler env now sendEmail req)) =
              [SendEmail \<lparr>mail_to = env ''RECIPIENT_EMAIL'',
                          mail_subject = body_subject (req_body req),
                          mail_htmlMessage = body_htmlMessage (req_body req)\<rparr>]) \<and>
         (subject_contains (req_body req) p \<longleftrightarrow>
            (\<exists>s u v. body_subject (req_body req) = Some s \<and> s = u @ p @ v))"
proof -
  have "\<not> truthy_str (body_to (req_body req))"
    using assms(4) by (simp add: truthy_str_def)
  then have route: "mail_of env (req_body req) =
      \<lparr>mail_to =
         (if subject_contains (req_body req) (js ''Partner'') then
            Some (or_default (env ''PARTNER_EMAIL'') (js ''partners@luminarcapital.com''))
          else if subject_contains (req_body req) (js ''Financing'') then
            Some (or_default (env ''FINANCING_EMAIL'') (js ''clientsuccess@luminarcapital.com''))
          else env ''RECIPIENT_EMAIL''),
       mail_subject = body_subject (req_body req),
       mail_htmlMessage = body_htmlMessage (req_body req)\<rparr>"
    unfolding mail_of_def by (simp add: recipientEmail_routes)
  have sends: "filter is_SendEmail (snd (handler env now sendEmail req)) =
      [SendEmail (mail_of env (req_body req))]"
    using assms(1,2,3) by (rule handler_pass_sends)
  show ?thesis
    unfolding sends route
    using subject_contains_iff [of "req_body req" p]
    by (auto simp: or_default_def)
qed

theorem handler_routes_by_subject_witness:
  "req_method (post sub_partner) = js ''POST'' \<and>
   \<not> honeypot_filled (req_body (post sub_partner)) \<and>
   \<not> timing_suspicious now_demo (req_body (post sub_partner)) \<and>
   body_to (req_body (post sub_partner)) = None \<and>
   subject_contains (req_body (post sub_partner)) (js ''Partner'') \<and>
   env_routed ''PARTNER_EMAIL'' = Some (js ''partner-desk@luminarcapital.com'') \<and>
   filter is_SendEmail (snd (handler env_routed now_demo send_ok (post sub_partner))) =
     [SendEmail (mail_partner\<lparr>mail_to := Some (js ''partner-desk@luminarcapital.com'')\<rparr>)] \<and>
   env_demo ''PARTNER_EMAIL'' = None \<and>
   filter is_SendEmail (snd (handler env_demo now_demo send_ok (post sub_partner))) =
     [SendEmail mail_partner]"
proof -
  have p: "req_method (post sub_partner) = js ''POST''"
    by (simp add: post_def)
  note q = sub_partner_passes [THEN conjunct1] sub_partner_passes [THEN conjunct2]
  have t: "body_to (req_body (post sub_partner)) = None"
    by (simp add: post_def sub_partner_def)
  have c: "subject_contains (req_body (post sub_partner)) (js ''Partner'')"
    by (simp add: subject_contains_def post_def sub_partner_def js_def)
  have e: "env_routed ''PARTNER_EMAIL'' = Some (js ''partner-desk@luminarcapital.com'')"
    "env_demo ''PARTNER_EMAIL'' = None"
    by (simp_all add: env_routed_def env_demo_def)
  have n: "js ''partner-desk@luminarcapital.com'' \<noteq> []"
    by (simp add: js_def)
  have m: "body_subject (req_body (post sub_partner)) = Some (js ''Partner inquiry'')"
    "body_htmlMessage (req_body (post sub_partner)) = Some (js ''<p>Hello</p>'')"
    by (simp_all add: post_def sub_partner_def)
  show ?thesis
    using p q t c e n
      handler_routes_by_subject [OF p q t, of env_routed
        "js ''partner-desk@luminarcapital.com''" send_ok]
      handler_routes_by_subject [OF p q t, of env_demo _ send_ok]
    by (simp add: m mail_partner_def)
qed

text \<open>
  The other routing rules at concrete submissions, with every mailbox configured: a
  subject with both tags goes to the partner mailbox, a financing subject to the
  financing mailbox, and any other subject to the default mailbox.
\<close>

lemma handler_routes_examples:
  "filter is_SendEmail (snd (handler env_routed now_demo send_ok (post sub_both))) =
     [SendEmail \<lparr>mail_to = Some (js ''partner-desk@luminarcapital.com''),
                 mail_subject = Some (js ''Financing for a Partner''),
                 mail_htmlMessage = Some (js ''<p>Hello</p>'')\<rparr>] \<and>
   filter is_SendEmail (snd (handler env_routed now_demo send_ok (post sub_financing))) =
     [SendEmail \<lparr>mail_to = Some (js ''funding@luminarcapital.com''),
                 mail_subject = Some (js ''Apply for Financing''),
                 mail_htmlMessage = Some (js ''<p>Hello</p>'')\<rparr>] \<and>
   filter is_SendEmail (snd (handler env_routed now_demo send_ok (post sub_other))) =
     [SendEmail \<lparr>mail_to = Some (js ''info@luminarcapital.com''),
                 mail_subject = Some (js ''General question''),
                 mail_htmlMessage = Some (js ''<p>Hello</p>'')\<rparr>]"
proof -
  have pass: "req_method (post b) = js ''POST''"
    "\<not> honeypot_filled (req_body (post b))"
    "\<not> timing_suspicious now_demo (req_body (post b))"
    if "b = sub_both \<or> b = sub_financing \<or> b = sub_other" for b
    using that
    by (auto simp: post_def sub_both_def sub_financing_def sub_other_def sub_partner_def
        honeypot_filled_def validateHoneypot_def timing_suspicious_def validateTimestamp_def
        now_demo_def)
  have sends: "filter is_SendEmail (snd (handler env_routed now_demo send_ok (post b))) =
      [SendEmail (mail_of env_routed (req_body (post b)))]"
    if "b = sub_both \<or> b = sub_financing \<or> b = sub_other" for b
    using pass [OF that] by (rule handler_pass_sends)
  have both: "mail_of env_routed (req_body (post sub_both)) =
      \<lparr>mail_to = Some (js ''partner-desk@luminarcapital.com''),
       mail_subject = Some (js ''Financing for a Partner''),
       mail_htmlMessage = Some (js ''<p>Hello</p>'')\<rparr>"
    by (simp add: mail_of_def post_def sub_both_def sub_partner_def recipientEmail_def
        truthy_str_def or_default_def env_routed_def js_def)
  have financing: "mail_of env_routed (req_body (post sub_financing)) =
      \<lparr>mail_to = Some (js ''funding@luminarcapital.com''),
       mail_subject = Some (js ''Apply for Financing''),
       mail_htmlMessage = Some (js ''<p>Hello</p>'')\<rparr>"
    by (simp add: mail_of_def post_def sub_financing_def sub_partner_def recipientEmail_def
        truthy_str_def or_default_def env_routed_def js_def)
  have other: "mail_of env_routed (req_body (post sub_other)) =
      \<lparr>mail_to = Some (js ''info@luminarcapital.com''),
       mail_subject = Some (js ''General question''),
       mail_htmlMessage = Some (js ''<p>Hello</p>'')\<rparr>"
    by (simp add: mail_of_def post_def sub_other_def sub_partner_def recipientEmail_def
        truthy_str_def or_default_def env_routed_def js_def)
  show ?thesis
    by (simp add: sends both financing other)
qed

lemma handler_post_envelope:
  assumes "req_method req = js ''POST''"
  shows "is_envelope (json (fst (handler env now sendEmail req))) \<and>
         (status (fst (handler env now sendEmail req)) = 200 \<or>
          status (fst (handler env now sendEmail req)) = 500)"
proof (cases "honeypot_filled (req_body req) \<or> timing_suspicious now (req_body req)")
  case True
  with handler_drop [OF assms, of now env sendEmail] show ?thesis by simp
next
  case False
  then have pass: "\<not> honeypot_filled (req_body req)" "\<not> timing_suspicious now (req_body req)"
    by simp_all
  show ?thesis
  proof (cases "sendEmail (mail_of env (req_body req))")
    case (Returned r)
    with assms pass show ?thesis by (simp add: handler_pass_returned)
  next
    case (Threw e)
    with assms pass show ?thesis by (simp add: handler_pass_threw)
  qed
qed

text \<open>
  C9, as amended. Every response to a POST request, whether the submission is dropped
  as spam, sent, or fails to send, is a full envelope with the three properties
  \<open>success\<close>, \<open>response\<close> and \<open>error\<close>, with status 200 or 500. A request with another
  method gets status 405 and the body \<open>{error: 'Method not allowed'}\<close>.
\<close>

theorem handler_envelope_on_post:
  "(req_method req = js ''POST'' \<longrightarrow>
      is_envelope (json (fst (handler env now sendEmail req))) \<and>
      (status (fst (handler env now sendEmail req)) = 200 \<or>
       status (fst (handler env now sendEmail req)) = 500)) \<and>
   (req_method req \<noteq> js ''POST'' \<longrightarrow>
      handler env now sendEmail req =
        (\<lparr>status = 405, json = [(''error'', JStr (js ''Method not allowed''))]\<rparr>, []))"
  using handler_post_envelope [of req env now sendEmail]
  by (simp add: handler_def)

theorem handler_envelope_on_post_witness:
  "req_method (post sub_partner) = js ''POST'' \<and>
   is_envelope (json (fst (handler env_demo now_demo send_timeout (post sub_partner)))) \<and>
   req_method \<lparr>req_method = js ''PUT'', req_body = sub_partner\<rparr> \<noteq> js ''POST'' \<and>
   status (fst (handler env_demo now_demo send_timeout
                  \<lparr>req_method = js ''PUT'', req_body = sub_partner\<rparr>)) = 405"
proof -
  have p: "req_method (post sub_partner) = js ''POST''"
    by (simp add: post_def)
  have g: "req_method \<lparr>req_method = js ''PUT'', req_body = sub_partner\<rparr> \<noteq> js ''POST''"
    by (simp add: js_def)
  show ?thesis
    using p g handler_envelope_on_post [of "post sub_partner" env_demo now_demo send_timeout]
      handler_envelope_on_post [of "\<lparr>req_method = js ''PUT'', req_body = sub_partner\<rparr>"
        env_demo now_demo send_timeout]
    by simp
qed

text \<open>
  C9 as stated fails: the response to a GET request has the single property \<open>error\<close>,
  so it is not a full envelope.
\<close>

theorem handler_method_not_allowed_counterexample:
  "fst (handler env_demo now_demo send_ok \<lparr>req_method = js ''GET'', req_body = sub_partner\<rparr>) =
     \<lparr>status = 405, json = [(''error'', JStr (js ''Method not allowed''))]\<rparr> \<and>
   \<not> is_envelope
       (json (fst (handler env_demo now_demo send_ok
                     \<lparr>req_method = js ''GET'', req_body = sub_partner\<rparr>)))"
  by (simp add: handler_def js_def)

text \<open>
  C10. For a POST submission with a clean honeypot whose timestamp is absent or 0, the
  handler does not check the timing: its answer does not depend on the clock, no
  suspicious-timing warning is logged, and \<open>sendEmail\<close> is called with the resolved
  mail, although \<open>validateTimestamp\<close> rejects the timestamp 0 at any realistic time.
\<close>

theorem handler_falsy_timestamp_skips_timing:
  assumes "req_method req = js ''POST''"
    and "validateHoneypot (body_honeypot (req_body req))"
    and "body_timestamp (req_body req) = None \<or> body_timestamp (req_body req) = Some 0"
  shows "filter is_SendEmail (snd (handler env now sendEmail req)) =
           [SendEmail (mail_of env (req_body req))] \<and>
         ConsoleWarn (js ''Spam detected: Suspicious timing'') \<notin>
           set (snd (handler env now sendEmail req)) \<and>
         handler env now sendEmail req = handler env now' sendEmail req \<and>
         (1800000 < now \<longrightarrow> \<not> validateTimestamp now 0)"
proof -
  have h: "\<not> honeypot_filled (req_body req)"
    using assms(2) by (simp add: honeypot_filled_def)
  have t: "\<not> timing_suspicious n (req_body req)" for n
    using assms(3) by (auto simp: timing_suspicious_def)
  have sends: "filter is_SendEmail (snd (handler env now sendEmail req)) =
      [SendEmail (mail_of env (req_body req))]"
    using assms(1) h t by (simp add: handler_pass_sends)
  have quiet: "ConsoleWarn (js ''Spam detected: Suspicious timing'') \<notin>
      set (snd (handler env now sendEmail req))"
  proof (cases "sendEmail (mail_of env (req_body req))")
    case (Returned r)
    with assms(1) h t show ?thesis by (simp add: handler_pass_returned)
  next
    case (Threw e)
    with assms(1) h t show ?thesis by (simp add: handler_pass_threw)
  qed
  have same: "handler env now sendEmail req = handler env now' sendEmail req"
    using assms(1) h t by (simp add: handler_post handler_try_pass)
  have window: "1800000 < now \<longrightarrow> \<not> validateTimestamp now 0"
    by (simp add: validateTimestamp_def)
  from sends quiet same window show ?thesis
    by (intro conjI)
qed

theorem handler_falsy_timestamp_skips_timing_witness:
  "req_method (post sub_notime) = js ''POST'' \<and>
   validateHoneypot (body_honeypot (req_body (post sub_notime))) \<and>
   body_timestamp (req_body (post sub_notime)) = Some 0 \<and>
   \<not> validateTimestamp now_demo 0 \<and>
   filter is_SendEmail (snd (handler env_demo now_demo send_ok (post sub_notime))) =
     [SendEmail mail_partner]"
proof -
  have p: "req_method (post sub_notime) = js ''POST''"
    by (simp add: post_def)
  have h: "validateHoneypot (body_honeypot (req_body (post sub_notime)))"
    by (simp add: post_def sub_notime_def sub_partner_def validateHoneypot_def)
  have z: "body_timestamp (req_body (post sub_notime)) = Some 0"
    by (simp add: post_def sub_notime_def)
  have n: "(1800000 :: int) < now_demo"
    by (simp add: now_demo_def)
  have m: "mail_of env_demo (req_body (post sub_notime)) = mail_partner"
    by (simp add: mail_of_def post_def sub_notime_def sub_partner_def mail_partner_def
        recipientEmail_def truthy_str_def or_default_def env_demo_def js_def)
  show ?thesis
    using p h z n
      handler_falsy_timestamp_skips_timing [OF p h disjI2 [OF z], of env_demo now_demo send_ok]
    by (simp add: m)
qed

end
